theory Spec2Isabelle
  imports Complex_Main
begin

section \<open>Address input: data model\<close>

text \<open>
  The address input (\<^verbatim>\<open>AddressInput\<close>) binds a form field to a value
  \<^verbatim>\<open>{address, position: {lat, lng}}\<close>. Coordinates are JavaScript numbers that the
  component only passes along (it never computes with them), so they are modelled as
  reals. \<^verbatim>\<open>address\<close> may be \<^verbatim>\<open>undefined\<close>, which is \<open>None\<close>.
\<close>

record LatLngLiteral =
  lat :: real
  lng :: real

record AddressValue =
  address :: "string option"
  position :: LatLngLiteral

text \<open>\<^verbatim>\<open>interface PlaceOption { description: string; placeId: string }\<close>\<close>

record PlaceOption =
  description :: string
  placeId :: string

text \<open>
  \<^verbatim>\<open>formattedSuggestion\<close> is a plain string in the initial entry of the suggestion
  state and an object \<^verbatim>\<open>{mainText, secondaryText}\<close> in the entry built after
  geolocation.
\<close>

datatype FormattedSuggestion =
    PlainText string
  | MainSecondary string string

text \<open>
  A \<^verbatim>\<open>Suggestion\<close> of the places library; it has the two fields of
  \<^verbatim>\<open>PlaceOption\<close> and is passed where a \<^verbatim>\<open>PlaceOption\<close> is expected.
  The field \<^verbatim>\<open>id\<close> is named \<open>id_s\<close> here.
\<close>

record Suggestion = PlaceOption +
  id_s :: string
  active :: bool
  index :: nat
  formattedSuggestion :: FormattedSuggestion
  matchedSubstrings :: "(nat \<times> nat) list"
  terms :: "(nat \<times> string) list"
  types :: "string list"

datatype LocationState =
    idle
  | requesting
  | detecting
  | geocoding
  | success
  | error
  | denied

text \<open>
  A geocoder result as far as the component reads it. The component reads
  \<^verbatim>\<open>geometry?.location\<close> with optional chaining and \<^verbatim>\<open>place_id || ""\<close>,
  so each of them may be missing.
\<close>

record GeocoderGeometry =
  location :: "LatLngLiteral option"

record GeocoderResult =
  formatted_address :: string
  geometry :: "GeocoderGeometry option"
  place_id :: "string option"

text \<open>
  How an awaited promise settles. \<open>Pending\<close> is a promise that never settles: the
  code after the \<^verbatim>\<open>await\<close> never runs.
\<close>

datatype ('e, 'a) promise =
    Pending
  | Rejected 'e
  | Resolved 'a

text \<open>The options object passed to \<^verbatim>\<open>navigator.geolocation.getCurrentPosition\<close>;
  both durations are in milliseconds.\<close>

record PositionOptions =
  enableHighAccuracy :: bool
  timeout :: nat
  maximumAge :: nat

record GeolocationCoordinates =
  latitude :: real
  longitude :: real

datatype GeolocationPositionError =
    PERMISSION_DENIED
  | POSITION_UNAVAILABLE
  | TIMEOUT

text \<open>
  Everything a handler does besides computing: calls of the React state setters, of
  \<^verbatim>\<open>field.onChange\<close> (the bound form value), of the browser and of the provider,
  console output, and the timers (\<^verbatim>\<open>setTimeout\<close> with its delay in milliseconds,
  \<^verbatim>\<open>clearTimeout\<close>), in the order in which the handler makes them.
\<close>

datatype effect =
    SetLocationState LocationState
  | SetHasRequestedLocation bool
  | SetState "Suggestion option list"
  | SetValue string
  | SetAllowManualInput bool
  | SetApiLoaded bool
  | FieldOnChange AddressValue
  | GetCurrentPosition PositionOptions
  | Geocode LatLngLiteral
  | GeocodeByPlaceId string
  | ClearSuggestions
  | AutocompleteInputChange string
  | FocusInput
  | SetTimeout nat
  | ClearTimeout
  | ConsoleWarn "string list"
  | ConsoleError "string list"

text \<open>The component's local state (the \<^verbatim>\<open>useState\<close> cells; \<^verbatim>\<open>value\<close> is
  \<open>inputValue\<close>) and the bound form value \<^verbatim>\<open>field.value\<close>.\<close>

record component =
  apiLoaded :: bool
  locationState :: LocationState
  hasRequestedLocation :: bool
  state :: "Suggestion option list"
  inputValue :: string
  allowManualInput :: bool
  fieldValue :: "AddressValue option"

fun perform :: "effect \<Rightarrow> component \<Rightarrow> component" where
  "perform (SetLocationState s) c = c\<lparr>locationState := s\<rparr>"
| "perform (SetHasRequestedLocation b) c = c\<lparr>hasRequestedLocation := b\<rparr>"
| "perform (SetState st) c = c\<lparr>state := st\<rparr>"
| "perform (SetValue v) c = c\<lparr>inputValue := v\<rparr>"
| "perform (SetAllowManualInput b) c = c\<lparr>allowManualInput := b\<rparr>"
| "perform (SetApiLoaded b) c = c\<lparr>apiLoaded := b\<rparr>"
| "perform (FieldOnChange v) c = c\<lparr>fieldValue := Some v\<rparr>"
| "perform (GetCurrentPosition opts) c = c"
| "perform (Geocode l) c = c"
| "perform (GeocodeByPlaceId p) c = c"
| "perform ClearSuggestions c = c"
| "perform (AutocompleteInputChange v) c = c"
| "perform FocusInput c = c"
| "perform (SetTimeout ms) c = c"
| "perform ClearTimeout c = c"
| "perform (ConsoleWarn m) c = c"
| "perform (ConsoleError m) c = c"

fun run :: "effect list \<Rightarrow> component \<Rightarrow> component" where
  "run [] c = c"
| "run (e # es) c = run es (perform e c)"

text \<open>The values passed to \<^verbatim>\<open>field.onChange\<close>, in order.\<close>

fun writes :: "effect list \<Rightarrow> AddressValue list" where
  "writes [] = []"
| "writes (FieldOnChange v # es) = v # writes es"
| "writes (e # es) = writes es"

text \<open>The arguments of the calls of \<^verbatim>\<open>setLocationState\<close>, in order.\<close>

fun location_trace :: "effect list \<Rightarrow> LocationState list" where
  "location_trace [] = []"
| "location_trace (SetLocationState s # es) = s # location_trace es"
| "location_trace (e # es) = location_trace es"

text \<open>The requests made to the browser's geolocation and to the provider, in order.\<close>

fun requests :: "effect list \<Rightarrow> effect list" where
  "requests [] = []"
| "requests (GetCurrentPosition opts # es) = GetCurrentPosition opts # requests es"
| "requests (Geocode l # es) = Geocode l # requests es"
| "requests (GeocodeByPlaceId p # es) = GeocodeByPlaceId p # requests es"
| "requests (e # es) = requests es"

text \<open>The calls of \<^verbatim>\<open>setTimeout\<close> and \<^verbatim>\<open>clearTimeout\<close>, in order.\<close>

fun timers :: "effect list \<Rightarrow> effect list" where
  "timers [] = []"
| "timers (SetTimeout ms # es) = SetTimeout ms # timers es"
| "timers (ClearTimeout # es) = ClearTimeout # timers es"
| "timers (e # es) = timers es"

fun console :: "effect list \<Rightarrow> effect list" where
  "console [] = []"
| "console (ConsoleWarn m # es) = ConsoleWarn m # console es"
| "console (ConsoleError m # es) = ConsoleError m # console es"
| "console (e # es) = console es"

section \<open>Suggestion selection\<close>

text \<open>
  \<^verbatim>\<open>response[0].geometry?.location?.toJSON() || {lat: 0, lng: 0}\<close>: the location of
  the result when it has one, else the literal \<^verbatim>\<open>{lat: 0, lng: 0}\<close>.
\<close>

definition result_location :: "GeocoderResult \<Rightarrow> LatLngLiteral option" where
  "result_location r =
     (case geometry r of
        None \<Rightarrow> None
      | Some g \<Rightarrow> location g)"

definition location_or_default :: "GeocoderResult \<Rightarrow> LatLngLiteral" where
  "location_or_default r =
     (case result_location r of
        None \<Rightarrow> \<lparr>lat = 0, lng = 0\<rparr>
      | Some l \<Rightarrow> l)"

text \<open>
  \<^verbatim>\<open>handleSelect(option, onChange)\<close>. The first argument of the model is how
  \<^verbatim>\<open>geocodeByPlaceId(option.placeId)\<close> settles; \<open>onChange\<close> is always
  \<^verbatim>\<open>field.onChange\<close>. \<open>None\<close> is an option for which \<^verbatim>\<open>option?.placeId\<close> is
  \<^verbatim>\<open>undefined\<close>. The branches, in the order of the source:
  \<^item> \<^verbatim>\<open>!option?.placeId\<close> and \<^verbatim>\<open>option?.placeId === ""\<close>: the empty selection;
  \<^item> \<^verbatim>\<open>!option?.placeId\<close> otherwise: no valid option;
  \<^item> else the place is geocoded; \<^verbatim>\<open>response && response[0]\<close> takes the first
    result, anything else (and a rejection, after a console warning) falls back to the
    option's description.
\<close>

fun handleSelect ::
  "(string, GeocoderResult list option) promise \<Rightarrow> 'a PlaceOption_scheme option \<Rightarrow> effect list"
where
  "handleSelect response None =
     [FieldOnChange \<lparr>address = None, position = \<lparr>lat = 0, lng = 0\<rparr>\<rparr>]"
| "handleSelect response (Some opt) =
     (if placeId opt = ''''
      then [FieldOnChange \<lparr>address = Some '''', position = \<lparr>lat = 0, lng = 0\<rparr>\<rparr>]
      else GeocodeByPlaceId (placeId opt) #
        (case response of
           Pending \<Rightarrow> []
         | Resolved (Some (r # rs)) \<Rightarrow>
             [FieldOnChange
                \<lparr>address = Some (formatted_address r), position = location_or_default r\<rparr>]
         | Resolved _ \<Rightarrow>
             [FieldOnChange
                \<lparr>address = Some (description opt), position = \<lparr>lat = 0, lng = 0\<rparr>\<rparr>]
         | Rejected e \<Rightarrow>
             [ConsoleWarn [''Geocoding error:'', e],
              FieldOnChange
                \<lparr>address = Some (description opt), position = \<lparr>lat = 0, lng = 0\<rparr>\<rparr>]))"

text \<open>
  The effect that follows every change of the suggestion state:
  \<^verbatim>\<open>if (state.length === 0) handleFieldChange({address: undefined, ...})
else handleSelect(state[0], handleFieldChange)\<close>.
\<close>

fun selectionEffect ::
  "(string, GeocoderResult list option) promise \<Rightarrow> Suggestion option list \<Rightarrow> effect list"
where
  "selectionEffect response [] =
     [FieldOnChange \<lparr>address = None, position = \<lparr>lat = 0, lng = 0\<rparr>\<rparr>]"
| "selectionEffect response (s # ss) = handleSelect response s"

section \<open>Geolocation\<close>

text \<open>
  The answers of the outside world to one run of \<^verbatim>\<open>handleAutoLocation\<close>:
  whether \<^verbatim>\<open>navigator.geolocation\<close> exists, how the position request settles
  (\<open>Pending\<close>: neither callback is ever called), and the arguments
  \<^verbatim>\<open>(results, status)\<close> with which the geocoder calls back (\<open>None\<close>: it never
  does; \<^verbatim>\<open>results\<close> may be \<^verbatim>\<open>null\<close>).
\<close>

record geolocation_answers =
  navigator_geolocation :: bool
  position_fix :: "(GeolocationPositionError, GeolocationCoordinates) promise"
  geocoder_callback :: "(GeocoderResult list option \<times> string) option"

text \<open>
  The promise around \<^verbatim>\<open>geocoder.geocode\<close>: it resolves with the results when
  \<^verbatim>\<open>status === "OK" && results && results.length > 0\<close> and rejects otherwise.
\<close>

definition reverse_geocode ::
  "(GeocoderResult list option \<times> string) option \<Rightarrow> (string, GeocoderResult list) promise"
where
  "reverse_geocode cb =
     (case cb of
        None \<Rightarrow> Pending
      | Some (results, status) \<Rightarrow>
          (case results of
             None \<Rightarrow> Rejected ''Failed to get address from coordinates''
           | Some rs \<Rightarrow>
               if status = ''OK'' \<and> length rs > 0 then Resolved rs
               else Rejected ''Failed to get address from coordinates''))"

text \<open>
  \<^verbatim>\<open>s.split(",")\<close>, \<^verbatim>\<open>pieces.join(",")\<close> and \<^verbatim>\<open>s.trim()\<close>. A string of the
  model is the UTF-8 encoding of the string of the program; the comma is one byte, which
  occurs in no other character.
\<close>

fun split_on :: "char \<Rightarrow> string \<Rightarrow> string list" where
  "split_on c [] = [[]]"
| "split_on c (x # xs) =
     (if x = c then [] # split_on c xs
      else (case split_on c xs of
              [] \<Rightarrow> [[x]]
            | w # ws \<Rightarrow> (x # w) # ws))"

fun join_with :: "string \<Rightarrow> string list \<Rightarrow> string" where
  "join_with sep [] = []"
| "join_with sep [w] = w"
| "join_with sep (w # v # ws) = w @ sep @ join_with sep (v # ws)"

text \<open>
  The characters that \<^verbatim>\<open>trim\<close> removes, each in UTF-8: the white space
  U+0009, U+000B, U+000C, U+0020, U+00A0, U+FEFF and the space separators U+1680,
  U+2000 to U+200A, U+202F, U+205F, U+3000, and the line terminators U+000A, U+000D,
  U+2028, U+2029.
\<close>

definition white_space :: "string list" where
  "white_space =
     [[CHR 0x09], [CHR 0x0A], [CHR 0x0B], [CHR 0x0C], [CHR 0x0D], [CHR 0x20],
      [CHR 0xC2, CHR 0xA0],
      [CHR 0xE1, CHR 0x9A, CHR 0x80],
      [CHR 0xE2, CHR 0x80, CHR 0x80], [CHR 0xE2, CHR 0x80, CHR 0x81],
      [CHR 0xE2, CHR 0x80, CHR 0x82], [CHR 0xE2, CHR 0x80, CHR 0x83],
      [CHR 0xE2, CHR 0x80, CHR 0x84], [CHR 0xE2, CHR 0x80, CHR 0x85],
      [CHR 0xE2, CHR 0x80, CHR 0x86], [CHR 0xE2, CHR 0x80, CHR 0x87],
      [CHR 0xE2, CHR 0x80, CHR 0x88], [CHR 0xE2, CHR 0x80, CHR 0x89],
      [CHR 0xE2, CHR 0x80, CHR 0x8A],
      [CHR 0xE2, CHR 0x80, CHR 0xA8], [CHR 0xE2, CHR 0x80, CHR 0xA9],
      [CHR 0xE2, CHR 0x80, CHR 0xAF],
      [CHR 0xE2, CHR 0x81, CHR 0x9F],
      [CHR 0xE3, CHR 0x80, CHR 0x80],
      [CHR 0xEF, CHR 0xBB, CHR 0xBF]]"

text \<open>The white-space character with which a string starts, or ends, if any.\<close>

definition leading_space :: "string \<Rightarrow> string option" where
  "leading_space s = find (\<lambda>w. w \<noteq> [] \<and> take (length w) s = w) white_space"

definition trailing_space :: "string \<Rightarrow> string option" where
  "trailing_space s =
     find (\<lambda>w. w \<noteq> [] \<and> drop (length s - length w) s = w) white_space"

text \<open>\<^verbatim>\<open>trim\<close> removes white space from both ends, one character at a time.\<close>

function trimStart :: "string \<Rightarrow> string" where
  "trimStart s =
     (case leading_space s of
        None \<Rightarrow> s
      | Some w \<Rightarrow> trimStart (drop (length w) s))"
  by pat_completeness auto
termination
proof (relation "measure length")
  show "wf (measure length)" by simp
next
  fix s w :: string
  assume "leading_space s = Some w"
  then have w: "w \<noteq> []" and t: "take (length w) s = w"
    by (auto simp: leading_space_def find_Some_iff)
  from t have "length (take (length w) s) = length w"
    by simp
  then have "length w \<le> length s"
    by simp
  with w show "(drop (length w) s, s) \<in> measure length"
    by (cases w) simp_all
qed

function trimEnd :: "string \<Rightarrow> string" where
  "trimEnd s =
     (case trailing_space s of
        None \<Rightarrow> s
      | Some w \<Rightarrow> trimEnd (take (length s - length w) s))"
  by pat_completeness auto
termination
proof (relation "measure length")
  show "wf (measure length)" by simp
next
  fix s w :: string
  assume "trailing_space s = Some w"
  then have w: "w \<noteq> []" and t: "drop (length s - length w) s = w"
    by (auto simp: trailing_space_def find_Some_iff)
  from t have "length (drop (length s - length w) s) = length w"
    by simp
  then have "length w \<le> length s"
    by simp
  with w show "(take (length s - length w) s, s) \<in> measure length"
    by (cases w) simp_all
qed

declare trimStart.simps [simp del] trimEnd.simps [simp del]

definition trim :: "string \<Rightarrow> string" where
  "trim s = trimEnd (trimStart s)"

text \<open>\<^verbatim>\<open>address.split(",")[0] || address\<close>\<close>

definition mainText :: "string \<Rightarrow> string" where
  "mainText addr =
     (case split_on CHR '','' addr of
        [] \<Rightarrow> addr
      | w # ws \<Rightarrow> if w = '''' then addr else w)"

text \<open>\<^verbatim>\<open>address.split(",").slice(1).join(",").trim() || ""\<close>\<close>

definition secondaryText :: "string \<Rightarrow> string" where
  "secondaryText addr = trim (join_with '','' (drop 1 (split_on CHR '','' addr)))"

text \<open>The entry that \<^verbatim>\<open>handleAutoLocation\<close> puts into the suggestion state.\<close>

definition detected_suggestion :: "GeocoderResult \<Rightarrow> Suggestion" where
  "detected_suggestion r =
     \<lparr>description = formatted_address r,
      placeId = (case place_id r of None \<Rightarrow> '''' | Some p \<Rightarrow> p),
      id_s = ''detected-location'',
      active = False,
      index = 0,
      formattedSuggestion =
        MainSecondary (mainText (formatted_address r)) (secondaryText (formatted_address r)),
      matchedSubstrings = [],
      terms = [],
      types = []\<rparr>"

text \<open>
  \<^verbatim>\<open>handleAutoLocation\<close>, with the prop \<^verbatim>\<open>autoDetectLocation\<close> and the state
  \<^verbatim>\<open>apiLoaded\<close> of its closure. Every exception inside the \<^verbatim>\<open>try\<close> block
  (a rejected promise, or the \<^verbatim>\<open>TypeError\<close> of reading
  \<^verbatim>\<open>results[0].geometry.location\<close> and calling \<^verbatim>\<open>location.lat()\<close> on a result
  without them) ends in the \<^verbatim>\<open>catch\<close> block, which only calls
  \<^verbatim>\<open>setLocationState("idle")\<close>.
\<close>

definition handleAutoLocation :: "bool \<Rightarrow> bool \<Rightarrow> geolocation_answers \<Rightarrow> effect list" where
  "handleAutoLocation autoDetectLocation api_loaded w =
     (if \<not> autoDetectLocation
      then [ConsoleWarn [''Auto geolocation detection is disabled for this input field.'']]
      else if \<not> api_loaded
      then [ConsoleError [''Maps API not loaded yet. Cannot detect location.'']]
      else [SetLocationState requesting, SetHasRequestedLocation True] @
        (if \<not> navigator_geolocation w then [SetLocationState idle]
         else [SetLocationState detecting,
               GetCurrentPosition
                 \<lparr>enableHighAccuracy = True, timeout = 10000, maximumAge = 300000\<rparr>] @
           (case position_fix w of
              Pending \<Rightarrow> []
            | Rejected e \<Rightarrow> [SetLocationState idle]
            | Resolved coords \<Rightarrow>
                [SetLocationState geocoding,
                 Geocode \<lparr>lat = latitude coords, lng = longitude coords\<rparr>] @
                (case reverse_geocode (geocoder_callback w) of
                   Pending \<Rightarrow> []
                 | Rejected e \<Rightarrow> [SetLocationState idle]
                 | Resolved [] \<Rightarrow> [SetLocationState idle]
                 | Resolved (r # rs) \<Rightarrow>
                     (case result_location r of
                        None \<Rightarrow> [SetLocationState idle]
                      | Some l \<Rightarrow>
                          [FieldOnChange
                             \<lparr>address = Some (formatted_address r),
                              position = \<lparr>lat = lat l, lng = lng l\<rparr>\<rparr>,
                           SetState [Some (detected_suggestion r)],
                           SetLocationState success])))))"

text \<open>\<^verbatim>\<open>!field.value?.address\<close> is false exactly when the bound value has a non-empty
  address.\<close>

definition has_address :: "AddressValue option \<Rightarrow> bool" where
  "has_address v =
     (case v of
        None \<Rightarrow> False
      | Some a \<Rightarrow> (case address a of None \<Rightarrow> False | Some s \<Rightarrow> s \<noteq> ''''))"

text \<open>
  The effect that starts the detection. When
  \<^verbatim>\<open>autoDetectLocation && apiLoaded && !field.value?.address && !hasRequestedLocation
&& locationState === "idle"\<close> it sets a timer of 500 ms that calls
  \<^verbatim>\<open>handleAutoLocation\<close>, and returns the cleanup \<^verbatim>\<open>clearTimeout(timer)\<close>, which
  React runs when one of the values that the effect read changes or the component
  unmounts. Nothing else calls \<^verbatim>\<open>handleAutoLocation\<close>. \<open>autoDetectEffect\<close> is the
  effect whose timer fires: no value has changed since, and the run follows.
  \<open>autoDetectCancelled\<close> is the effect whose cleanup comes first: the run never starts.
\<close>

definition autoDetectEffect :: "bool \<Rightarrow> component \<Rightarrow> geolocation_answers \<Rightarrow> effect list" where
  "autoDetectEffect autoDetectLocation c w =
     (if autoDetectLocation \<and> apiLoaded c \<and> \<not> has_address (fieldValue c)
         \<and> \<not> hasRequestedLocation c \<and> locationState c = idle
      then SetTimeout 500 # handleAutoLocation autoDetectLocation (apiLoaded c) w
      else [])"

definition autoDetectCancelled :: "bool \<Rightarrow> component \<Rightarrow> effect list" where
  "autoDetectCancelled autoDetectLocation c =
     (if autoDetectLocation \<and> apiLoaded c \<and> \<not> has_address (fieldValue c)
         \<and> \<not> hasRequestedLocation c \<and> locationState c = idle
      then [SetTimeout 500, ClearTimeout]
      else [])"

section \<open>Manual entry and the other handlers\<close>

text \<open>\<^verbatim>\<open>onError\<close> of the autocomplete: \<^verbatim>\<open>clearSuggestions(); setAllowManualInput(true)\<close>.\<close>

definition onError :: "effect list" where
  "onError = [ClearSuggestions, SetAllowManualInput True]"

text \<open>
  \<^verbatim>\<open>onInputChange(inputValue, actionMeta)\<close> of the select, with the state
  \<^verbatim>\<open>allowManualInput\<close> of its closure and \<^verbatim>\<open>actionMeta.action\<close>. The call of
  \<^verbatim>\<open>getInputProps().onChange\<close>, the input handler of the autocomplete provider, is
  outside the \<^verbatim>\<open>if\<close>.
\<close>

definition onInputChange :: "bool \<Rightarrow> string \<Rightarrow> string \<Rightarrow> effect list" where
  "onInputChange allow_manual input_value action =
     (if allow_manual \<and> action = ''input-change''
      then [FieldOnChange \<lparr>address = Some input_value, position = \<lparr>lat = 0, lng = 0\<rparr>\<rparr>]
      else []) @
     [AutocompleteInputChange input_value]"

text \<open>\<^verbatim>\<open>onChange(value, actionMeta)\<close> of the select; \<open>None\<close> is a cleared value.
  After the selection of an option a timer of 0 ms focuses the input.\<close>

definition selectOnChange :: "Suggestion option \<Rightarrow> string \<Rightarrow> effect list" where
  "selectOnChange v action =
     (case v of
        Some s \<Rightarrow> [SetState [Some s]]
      | None \<Rightarrow> [SetState []]) @
     (if action = ''select-option'' then [SetTimeout 0, FocusInput] else [])"

text \<open>\<^verbatim>\<open>onChange\<close> of the autocomplete: \<^verbatim>\<open>setValue(value)\<close>.\<close>

definition placesOnChange :: "string \<Rightarrow> effect list" where
  "placesOnChange v = [SetValue v]"

text \<open>The effect that loads the maps API: \<^verbatim>\<open>setApiLoaded(true)\<close> when the API is
  there already or its load resolves, nothing when the load fails.\<close>

definition loadApiEffect :: "bool \<Rightarrow> (unit, unit) promise \<Rightarrow> effect list" where
  "loadApiEffect already_loaded load =
     (if already_loaded then [SetApiLoaded True]
      else (case load of
              Resolved u \<Rightarrow> [SetApiLoaded True]
            | Rejected u \<Rightarrow> []
            | Pending \<Rightarrow> []))"

text \<open>
  The component as a state machine: what can happen to a mounted component, the effects
  of each event in the current state, and a session of events from the initial state.
\<close>

datatype event =
    LoadApi bool "(unit, unit) promise"
  | AutoDetect geolocation_answers
  | AutoDetectCancelled
  | SelectionEffect "(string, GeocoderResult list option) promise"
  | ProviderError
  | InputChange string string
  | SelectChange "Suggestion option" string
  | PlacesChange string

fun handle :: "bool \<Rightarrow> component \<Rightarrow> event \<Rightarrow> effect list" where
  "handle autoDetectLocation c (LoadApi already_loaded load) = loadApiEffect already_loaded load"
| "handle autoDetectLocation c (AutoDetect w) = autoDetectEffect autoDetectLocation c w"
| "handle autoDetectLocation c AutoDetectCancelled = autoDetectCancelled autoDetectLocation c"
| "handle autoDetectLocation c (SelectionEffect response) = selectionEffect response (state c)"
| "handle autoDetectLocation c ProviderError = onError"
| "handle autoDetectLocation c (InputChange input_value action) =
     onInputChange (allowManualInput c) input_value action"
| "handle autoDetectLocation c (SelectChange v action) = selectOnChange v action"
| "handle autoDetectLocation c (PlacesChange v) = placesOnChange v"

definition step :: "bool \<Rightarrow> component \<Rightarrow> event \<Rightarrow> component" where
  "step autoDetectLocation c ev = run (handle autoDetectLocation c ev) c"

fun session :: "bool \<Rightarrow> event list \<Rightarrow> component \<Rightarrow> component" where
  "session autoDetectLocation [] c = c"
| "session autoDetectLocation (ev # evs) c =
     session autoDetectLocation evs (step autoDetectLocation c ev)"

text \<open>The state of a freshly mounted component over the bound value \<open>v\<close>. The first
  suggestion is \<^verbatim>\<open>field?.value?.address && {...}\<close>.\<close>

definition initial_component :: "AddressValue option \<Rightarrow> component" where
  "initial_component v =
     \<lparr>apiLoaded = False,
      locationState = idle,
      hasRequestedLocation = False,
      state =
        [case v of
           None \<Rightarrow> None
         | Some a \<Rightarrow>
             (case address a of
                None \<Rightarrow> None
              | Some s \<Rightarrow>
                  if s = '''' then None
                  else Some \<lparr>description = s, placeId = '''', id_s = ''initial-id'',
                             active = False, index = 0, formattedSuggestion = PlainText s,
                             matchedSubstrings = [], terms = [], types = []\<rparr>)],
      inputValue = '''',
      allowManualInput = False,
      fieldValue = v\<rparr>"

section \<open>Multi-image input\<close>

text \<open>
  A browser \<^verbatim>\<open>File\<close> as far as the component reads it (\<^verbatim>\<open>size\<close>, in bytes, is
  \<open>size_f\<close> here). The bound list may also hold image URLs and objects with a
  \<^verbatim>\<open>url\<close>, which the component displays but never creates.
\<close>

record File =
  name :: string
  type :: string
  size_f :: nat

datatype image_item =
    FileItem File
  | UrlItem string
  | UrlObject string

text \<open>
  The props that the handlers read. They are JavaScript numbers, modelled as reals:
  \<^verbatim>\<open>maxFileSize\<close> is in megabytes and need not be whole.
\<close>

record image_props =
  maxFiles :: real
  maxFileSize :: real
  acceptedTypes :: "string list"

text \<open>
  The messages of the component, by their parameters:
  \<^verbatim>\<open>`${file.name}: Invalid file type. Accepted: ${acceptedTypes.join(", ")}`\<close>,
  \<^verbatim>\<open>`${file.name}: File too large. Max: ${maxFileSize}MB`\<close> and
  \<^verbatim>\<open>`Maximum ${maxFiles} files allowed`\<close>.
\<close>

datatype upload_error =
    InvalidFileType string "string list"
  | FileTooLarge string real
  | MaximumFiles real

text \<open>The local state of the component and the bound value \<^verbatim>\<open>field.value\<close>, which
  is \<open>None\<close> when it is not an array.\<close>

record image_input =
  isDragOver :: bool
  errors :: "upload_error list"
  files_value :: "image_item list option"

text \<open>The \<^verbatim>\<open>forEach\<close> loop of \<^verbatim>\<open>validateFiles\<close>, with its two arrays
  \<^verbatim>\<open>validFiles\<close> and \<^verbatim>\<open>newErrors\<close> as accumulators.\<close>

fun validateFiles_loop ::
  "image_props \<Rightarrow> File list \<Rightarrow> File list \<times> upload_error list \<Rightarrow> File list \<times> upload_error list"
where
  "validateFiles_loop p [] (validFiles, newErrors) = (validFiles, newErrors)"
| "validateFiles_loop p (file # files) (validFiles, newErrors) =
     (if type file \<notin> set (acceptedTypes p)
      then validateFiles_loop p files
             (validFiles, newErrors @ [InvalidFileType (name file) (acceptedTypes p)])
      else if real (size_f file) > maxFileSize p * 1024 * 1024
      then validateFiles_loop p files
             (validFiles, newErrors @ [FileTooLarge (name file) (maxFileSize p)])
      else validateFiles_loop p files (validFiles @ [file], newErrors))"

definition validateFiles :: "image_props \<Rightarrow> File list \<Rightarrow> File list \<times> upload_error list" where
  "validateFiles p files = validateFiles_loop p files ([], [])"

text \<open>\<^verbatim>\<open>Array.isArray(field.value) ? field.value : []\<close>\<close>

definition currentFiles :: "image_input \<Rightarrow> image_item list" where
  "currentFiles st = (case files_value st of None \<Rightarrow> [] | Some fs \<Rightarrow> fs)"

text \<open>
  What \<^verbatim>\<open>handleDrop\<close> and \<^verbatim>\<open>handleFileSelect\<close> both do with a file list:
  \<^verbatim>\<open>setErrors(validationErrors)\<close>, then either the message about the maximum and a
  return, or \<^verbatim>\<open>field.onChange([...currentFiles, ...validFiles])\<close>.
\<close>

definition add_files :: "image_props \<Rightarrow> File list \<Rightarrow> image_input \<Rightarrow> image_input" where
  "add_files p files st =
     (case validateFiles p files of
        (validFiles, validationErrors) \<Rightarrow>
          (let st1 = st\<lparr>errors := validationErrors\<rparr>;
               totalFiles = length (currentFiles st1) + length validFiles
           in if real totalFiles > maxFiles p
              then st1\<lparr>errors := errors st1 @ [MaximumFiles (maxFiles p)]\<rparr>
              else st1\<lparr>files_value := Some (currentFiles st1 @ map FileItem validFiles)\<rparr>))"

text \<open>\<^verbatim>\<open>handleDrop(e, field)\<close>; the first argument is \<^verbatim>\<open>e.dataTransfer.files\<close>,
  and \<^verbatim>\<open>!droppedFiles?.length\<close> returns early on a missing or empty list.\<close>

definition handleDrop :: "image_props \<Rightarrow> File list option \<Rightarrow> image_input \<Rightarrow> image_input" where
  "handleDrop p droppedFiles st =
     (let st0 = st\<lparr>isDragOver := False\<rparr>
      in case droppedFiles of
           None \<Rightarrow> st0
         | Some files \<Rightarrow> if length files = 0 then st0 else add_files p files st0)"

text \<open>\<^verbatim>\<open>handleFileSelect(e, field)\<close>; the first argument is \<^verbatim>\<open>e.target.files\<close>,
  which may be \<^verbatim>\<open>null\<close>. The final \<^verbatim>\<open>e.target.value = ""\<close> resets the file input
  of the page and touches neither the state nor the bound value.\<close>

definition handleFileSelect ::
  "image_props \<Rightarrow> File list option \<Rightarrow> image_input \<Rightarrow> image_input"
where
  "handleFileSelect p selectedFiles st =
     (case selectedFiles of
        None \<Rightarrow> st
      | Some files \<Rightarrow> add_files p files st)"

text \<open>The files that pass the two checks: an accepted MIME type and a size of at most
  \<^verbatim>\<open>maxFileSize\<close> megabytes of \<open>1024 * 1024\<close> bytes.\<close>

definition acceptable :: "image_props \<Rightarrow> File \<Rightarrow> bool" where
  "acceptable p file =
     (type file \<in> set (acceptedTypes p) \<and> real (size_f file) \<le> maxFileSize p * (1024 * 1024))"

section \<open>Notions of the specification\<close>

text \<open>
  A run of the geolocation fails at one of its stages: the browser has no geolocation;
  the position request is refused (permission denied, position unavailable, timeout);
  the geocoder answers with another status than \<^verbatim>\<open>"OK"\<close> or without a result; or the
  first result carries no location. An answer that never comes is not a failure.
\<close>

definition geolocation_fails :: "geolocation_answers \<Rightarrow> bool" where
  "geolocation_fails w =
     (\<not> navigator_geolocation w
      \<or> (case position_fix w of
            Pending \<Rightarrow> False
          | Rejected e \<Rightarrow> True
          | Resolved coords \<Rightarrow>
              (case geocoder_callback w of
                 None \<Rightarrow> False
               | Some (results, status) \<Rightarrow>
                   status \<noteq> ''OK''
                   \<or> (case results of
                         None \<Rightarrow> True
                       | Some [] \<Rightarrow> True
                       | Some (r # rs) \<Rightarrow> result_location r = None))))"

text \<open>The transitions of the location state along a trace that starts in \<open>s\<close>.\<close>

definition transitions ::
  "LocationState \<Rightarrow> LocationState list \<Rightarrow> (LocationState \<times> LocationState) list"
where
  "transitions s tr = zip (s # tr) tr"

text \<open>The transitions that the specification draws:
  \<^verbatim>\<open>idle -> requesting -> detecting -> geocoding -> success|error\<close>.\<close>

definition spec_transitions :: "(LocationState \<times> LocationState) list" where
  "spec_transitions =
     [(idle, requesting), (requesting, detecting), (detecting, geocoding),
      (geocoding, success), (geocoding, error)]"

text \<open>
  The coordinate that the provider resolved in the answers of an event, if any: the
  location of the first result of a successful geocoder answer. The other events carry
  no answer of the provider.
\<close>

definition resolved_coordinate :: "event \<Rightarrow> LatLngLiteral option" where
  "resolved_coordinate ev =
     (case ev of
        AutoDetect w \<Rightarrow>
          (case geocoder_callback w of
             Some (Some (r # rs), status) \<Rightarrow>
               if status = ''OK'' then result_location r else None
           | _ \<Rightarrow> None)
      | SelectionEffect (Resolved (Some (r # rs))) \<Rightarrow> result_location r
      | _ \<Rightarrow> None)"

subsection \<open>Example inputs\<close>

definition pune_option :: PlaceOption where
  "pune_option = \<lparr>description = ''Pune, Maharashtra, India'', placeId = ''p1''\<rparr>"

definition pune_result :: GeocoderResult where
  "pune_result =
     \<lparr>formatted_address = ''Pune, Maharashtra 411001, India'',
      geometry = Some \<lparr>location = Some \<lparr>lat = 18.52, lng = 73.85\<rparr>\<rparr>,
      place_id = Some ''p1''\<rparr>"

text \<open>A result without \<^verbatim>\<open>geometry\<close>.\<close>

definition bare_result :: GeocoderResult where
  "bare_result =
     \<lparr>formatted_address = ''Pune, Maharashtra 411001, India'',
      geometry = None,
      place_id = Some ''p1''\<rparr>"

definition located_answers :: geolocation_answers where
  "located_answers =
     \<lparr>navigator_geolocation = True,
      position_fix = Resolved \<lparr>latitude = 18.5, longitude = 73.8\<rparr>,
      geocoder_callback = Some (Some [pune_result], ''OK'')\<rparr>"

definition denied_answers :: geolocation_answers where
  "denied_answers =
     \<lparr>navigator_geolocation = True,
      position_fix = Rejected PERMISSION_DENIED,
      geocoder_callback = None\<rparr>"

text \<open>Answers that never come: of the position request, and of the geocoder.\<close>

definition pending_answers :: geolocation_answers where
  "pending_answers =
     \<lparr>navigator_geolocation = True,
      position_fix = Pending,
      geocoder_callback = None\<rparr>"

definition silent_geocoder_answers :: geolocation_answers where
  "silent_geocoder_answers =
     \<lparr>navigator_geolocation = True,
      position_fix = Resolved \<lparr>latitude = 18.5, longitude = 73.8\<rparr>,
      geocoder_callback = None\<rparr>"

text \<open>A mounted component without an address, once the maps API is loaded.\<close>

definition ready_component :: component where
  "ready_component = (initial_component None)\<lparr>apiLoaded := True\<rparr>"

section \<open>Properties of the effect interpreter\<close>

lemma locationState_run:
  "locationState (run es c) =
     (if location_trace es = [] then locationState c else last (location_trace es))"
proof (induction es arbitrary: c)
  case Nil
  show ?case by simp
next
  case (Cons e es)
  show ?case by (cases e) (simp_all add: Cons.IH)
qed

lemma allowManualInput_run:
  "allowManualInput c \<Longrightarrow> SetAllowManualInput False \<notin> set es \<Longrightarrow> allowManualInput (run es c)"
proof (induction es arbitrary: c)
  case Nil
  then show ?case by simp
next
  case (Cons e es)
  then show ?case by (cases e) simp_all
qed

section \<open>Properties of the suggestion selection\<close>

lemma handleSelect_effects:
  "set (handleSelect response opt) \<subseteq>
     range FieldOnChange \<union> range GeocodeByPlaceId \<union> range ConsoleWarn"
  by (cases opt) (auto split: promise.splits list.splits option.splits)

lemma location_trace_handleSelect: "location_trace (handleSelect response opt) = []"
  by (cases opt) (simp_all split: promise.splits list.splits option.splits)

lemma location_trace_selectionEffect: "location_trace (selectionEffect response st) = []"
  by (cases st) (simp_all add: location_trace_handleSelect)

text \<open>
  Claim C1, as amended. For every selection of a suggestion with a non-empty
  \<^verbatim>\<open>placeId\<close>, if \<^verbatim>\<open>geocodeByPlaceId\<close> resolves with at least one result,
  \<^verbatim>\<open>handleSelect\<close> makes the request and then calls \<^verbatim>\<open>onChange\<close> once, with the
  formatted address of the first result as the address and, as the position, the
  location of that result when it carries one and \<^verbatim>\<open>{lat: 0, lng: 0}\<close> when it does
  not.
\<close>

theorem handleSelect_resolved:
  "placeId opt \<noteq> '''' \<Longrightarrow>
   handleSelect (Resolved (Some (r # rs))) (Some opt) =
     [GeocodeByPlaceId (placeId opt),
      FieldOnChange
        \<lparr>address = Some (formatted_address r),
         position = (case result_location r of
                       Some l \<Rightarrow> l
                     | None \<Rightarrow> \<lparr>lat = 0, lng = 0\<rparr>)\<rparr>]"
  by (simp add: location_or_default_def split: option.splits)

text \<open>The amended claim C1 at a result that carries a location.\<close>

theorem handleSelect_resolved_witness:
  "placeId pune_option \<noteq> '''' \<and>
   handleSelect (Resolved (Some [pune_result])) (Some pune_option) =
     [GeocodeByPlaceId ''p1'',
      FieldOnChange
        \<lparr>address = Some ''Pune, Maharashtra 411001, India'',
         position = \<lparr>lat = 18.52, lng = 73.85\<rparr>\<rparr>]"
  using handleSelect_resolved [of pune_option pune_result "[]"]
  by (simp add: pune_option_def pune_result_def result_location_def)

text \<open>
  Claim C1 as it was stated fails: the provider resolves with one result, the result has
  no \<^verbatim>\<open>geometry\<close>, and the position written is the sentinel.
\<close>

theorem handleSelect_sentinel_counterexample:
  "handleSelect (Resolved (Some [bare_result])) (Some pune_option) =
     [GeocodeByPlaceId ''p1'',
      FieldOnChange
        \<lparr>address = Some ''Pune, Maharashtra 411001, India'',
         position = \<lparr>lat = 0, lng = 0\<rparr>\<rparr>]"
  by (simp add: pune_option_def bare_result_def location_or_default_def result_location_def)

text \<open>
  Claim C3. For every selection with a non-empty \<^verbatim>\<open>placeId\<close>, if the provider fails
  (\<^verbatim>\<open>geocodeByPlaceId\<close> rejects, or resolves with \<^verbatim>\<open>null\<close> or with an empty list),
  \<^verbatim>\<open>handleSelect\<close> calls \<^verbatim>\<open>onChange\<close> once, with the description of the suggestion
  as the address and the position \<^verbatim>\<open>{lat: 0, lng: 0}\<close>, which is then the bound value.
\<close>

theorem handleSelect_provider_failure:
  "placeId opt \<noteq> '''' \<Longrightarrow>
   response = Rejected e \<or> response = Resolved None \<or> response = Resolved (Some []) \<Longrightarrow>
   writes (handleSelect response (Some opt)) =
     [\<lparr>address = Some (description opt), position = \<lparr>lat = 0, lng = 0\<rparr>\<rparr>]
   \<and> fieldValue (run (handleSelect response (Some opt)) c) =
     Some \<lparr>address = Some (description opt), position = \<lparr>lat = 0, lng = 0\<rparr>\<rparr>"
  by auto

text \<open>Claim C3 at a rejected request.\<close>

theorem handleSelect_provider_failure_witness:
  "placeId pune_option \<noteq> '''' \<and>
   writes (handleSelect (Rejected ''ZERO_RESULTS'') (Some pune_option)) =
     [\<lparr>address = Some ''Pune, Maharashtra, India'', position = \<lparr>lat = 0, lng = 0\<rparr>\<rparr>] \<and>
   fieldValue (run (handleSelect (Rejected ''ZERO_RESULTS'') (Some pune_option))
                 ready_component) =
     Some \<lparr>address = Some ''Pune, Maharashtra, India'', position = \<lparr>lat = 0, lng = 0\<rparr>\<rparr>"
  using handleSelect_provider_failure
    [of pune_option "Rejected ''ZERO_RESULTS''" "''ZERO_RESULTS''" ready_component]
  by (simp add: pune_option_def)

text \<open>
  Claim C5. Selecting an option whose \<^verbatim>\<open>placeId\<close> is the empty string writes
  \<^verbatim>\<open>{address: "", position: {lat: 0, lng: 0}}\<close>, however the provider would have
  answered; an empty suggestion state writes
  \<^verbatim>\<open>{address: undefined, position: {lat: 0, lng: 0}}\<close>. In both cases this is then the
  bound value.
\<close>

theorem empty_and_absent_selection:
  "(placeId opt = '''' \<longrightarrow>
      handleSelect response (Some opt) =
        [FieldOnChange \<lparr>address = Some '''', position = \<lparr>lat = 0, lng = 0\<rparr>\<rparr>]
      \<and> fieldValue (run (handleSelect response (Some opt)) c) =
        Some \<lparr>address = Some '''', position = \<lparr>lat = 0, lng = 0\<rparr>\<rparr>)
   \<and> selectionEffect response [] =
        [FieldOnChange \<lparr>address = None, position = \<lparr>lat = 0, lng = 0\<rparr>\<rparr>]
   \<and> fieldValue (run (selectionEffect response []) c) =
        Some \<lparr>address = None, position = \<lparr>lat = 0, lng = 0\<rparr>\<rparr>"
  by simp

text \<open>Claim C5 at the option \<^verbatim>\<open>{description: "", placeId: ""}\<close>.\<close>

theorem empty_and_absent_selection_witness:
  "placeId \<lparr>description = '''', placeId = ''''\<rparr> = '''' \<and>
   fieldValue (run (handleSelect (Resolved (Some [pune_result]))
                      (Some \<lparr>description = '''', placeId = ''''\<rparr>)) ready_component) =
     Some \<lparr>address = Some '''', position = \<lparr>lat = 0, lng = 0\<rparr>\<rparr> \<and>
   fieldValue (run (selectionEffect (Resolved (Some [pune_result])) []) ready_component) =
     Some \<lparr>address = None, position = \<lparr>lat = 0, lng = 0\<rparr>\<rparr>"
  using empty_and_absent_selection
    [of "\<lparr>description = '''', placeId = ''''\<rparr>" "Resolved (Some [pune_result])"
        ready_component]
  by simp

section \<open>Properties of the geolocation run\<close>

lemma location_trace_handleAutoLocation:
  "location_trace (handleAutoLocation a l w) \<in>
     {[], [requesting, idle], [requesting, detecting], [requesting, detecting, idle],
      [requesting, detecting, geocoding], [requesting, detecting, geocoding, idle],
      [requesting, detecting, geocoding, success]}"
  unfolding handleAutoLocation_def
  by (simp split: promise.splits list.splits option.splits)

lemma location_trace_autoDetectEffect:
  "location_trace (autoDetectEffect a c w) = []
   \<or> locationState c = idle \<and> location_trace (autoDetectEffect a c w) \<in>
     {[requesting, idle], [requesting, detecting], [requesting, detecting, idle],
      [requesting, detecting, geocoding], [requesting, detecting, geocoding, idle],
      [requesting, detecting, geocoding, success]}"
proof (cases "a \<and> apiLoaded c \<and> \<not> has_address (fieldValue c)
         \<and> \<not> hasRequestedLocation c \<and> locationState c = idle")
  case True
  then have "autoDetectEffect a c w = SetTimeout 500 # handleAutoLocation a (apiLoaded c) w"
    by (simp add: autoDetectEffect_def)
  with True location_trace_handleAutoLocation [of a "apiLoaded c" w] show ?thesis
    by auto
next
  case False
  then have "autoDetectEffect a c w = []"
    unfolding autoDetectEffect_def by (simp only: if_False)
  then show ?thesis by simp
qed

text \<open>
  Claim C2. In every run of \<^verbatim>\<open>handleAutoLocation\<close> that gets past its two guards and
  fails at any stage (no geolocation in the browser, a refused position request such as
  a denied permission or a timeout, a failed reverse geocoding), the location state ends
  as \<open>idle\<close>, \<^verbatim>\<open>field.onChange\<close> is not called and the bound value is as before,
  nothing is written to the console, and the component differs from the one before the
  run only in \<^verbatim>\<open>locationState\<close> and \<^verbatim>\<open>hasRequestedLocation\<close>, neither of which is
  displayed.
\<close>

theorem handleAutoLocation_failure:
  assumes "geolocation_fails w"
  shows "run (handleAutoLocation True True w) c =
           c\<lparr>locationState := idle, hasRequestedLocation := True\<rparr>
         \<and> locationState (run (handleAutoLocation True True w) c) = idle
         \<and> fieldValue (run (handleAutoLocation True True w) c) = fieldValue c
         \<and> writes (handleAutoLocation True True w) = []
         \<and> console (handleAutoLocation True True w) = []"
  using assms
  unfolding geolocation_fails_def handleAutoLocation_def reverse_geocode_def
  by (auto split: promise.splits option.splits list.splits)

text \<open>Claim C2 at a denied permission.\<close>

theorem handleAutoLocation_failure_witness:
  "geolocation_fails denied_answers \<and>
   locationState (run (handleAutoLocation True True denied_answers) ready_component) = idle \<and>
   fieldValue (run (handleAutoLocation True True denied_answers) ready_component) = None \<and>
   writes (handleAutoLocation True True denied_answers) = []"
  using handleAutoLocation_failure [of denied_answers ready_component]
  by (simp add: geolocation_fails_def denied_answers_def ready_component_def
      initial_component_def)

text \<open>
  Claim C4. In every successful run of \<^verbatim>\<open>handleAutoLocation\<close> (a position fix is
  obtained and the reverse geocoding answers with status \<^verbatim>\<open>"OK"\<close> and at least one
  result, the first of which has its location, as every \<^verbatim>\<open>GeocoderResult\<close> of the
  provider has), the bound value becomes the formatted address and the coordinates of
  the first result, the suggestion state becomes exactly one entry, whose description is
  that formatted address, and the location state ends as \<open>success\<close>.
\<close>

theorem handleAutoLocation_success:
  assumes "navigator_geolocation w"
    and "position_fix w = Resolved coords"
    and "geocoder_callback w = Some (Some (r # rs), ''OK'')"
    and "result_location r = Some l"
  shows "fieldValue (run (handleAutoLocation True True w) c) =
           Some \<lparr>address = Some (formatted_address r), position = l\<rparr>
         \<and> state (run (handleAutoLocation True True w) c) = [Some (detected_suggestion r)]
         \<and> description (detected_suggestion r) = formatted_address r
         \<and> locationState (run (handleAutoLocation True True w) c) = success"
  using assms
  unfolding handleAutoLocation_def reverse_geocode_def
  by (simp add: detected_suggestion_def)

text \<open>Claim C4 at a run that finds Pune.\<close>

theorem handleAutoLocation_success_witness:
  "navigator_geolocation located_answers \<and>
   position_fix located_answers = Resolved \<lparr>latitude = 18.5, longitude = 73.8\<rparr> \<and>
   geocoder_callback located_answers = Some (Some [pune_result], ''OK'') \<and>
   result_location pune_result = Some \<lparr>lat = 18.52, lng = 73.85\<rparr> \<and>
   fieldValue (run (handleAutoLocation True True located_answers) ready_component) =
     Some \<lparr>address = Some ''Pune, Maharashtra 411001, India'',
           position = \<lparr>lat = 18.52, lng = 73.85\<rparr>\<rparr> \<and>
   state (run (handleAutoLocation True True located_answers) ready_component) =
     [Some (detected_suggestion pune_result)] \<and>
   description (detected_suggestion pune_result) = ''Pune, Maharashtra 411001, India''"
proof -
  have h1: "navigator_geolocation located_answers"
    by (simp add: located_answers_def)
  have h2: "position_fix located_answers = Resolved \<lparr>latitude = 18.5, longitude = 73.8\<rparr>"
    by (simp add: located_answers_def)
  have h3: "geocoder_callback located_answers = Some (Some (pune_result # []), ''OK'')"
    by (simp add: located_answers_def)
  have h4: "result_location pune_result = Some \<lparr>lat = 18.52, lng = 73.85\<rparr>"
    by (simp add: result_location_def pune_result_def)
  have f: "formatted_address pune_result = ''Pune, Maharashtra 411001, India''"
    by (simp add: pune_result_def)
  show ?thesis
    using handleAutoLocation_success [OF h1 h2 h3 h4, of ready_component] h1 h2 h3 h4 f
    by simp
qed

text \<open>The entry built for the example result, with its two display texts.\<close>

lemma detected_suggestion_example:
  "detected_suggestion pune_result =
     \<lparr>description = ''Pune, Maharashtra 411001, India'', placeId = ''p1'',
      id_s = ''detected-location'', active = False, index = 0,
      formattedSuggestion = MainSecondary ''Pune'' ''Maharashtra 411001, India'',
      matchedSubstrings = [], terms = [], types = []\<rparr>"
  by code_simp

text \<open>White space beyond ASCII is trimmed as well: a no-break space in front, a line
  separator and a line feed behind.\<close>

lemma trim_example:
  "trim ([CHR 0xC2, CHR 0xA0] @ '' Maharashtra 411001, India''
           @ [CHR 0xE2, CHR 0x80, CHR 0xA8, CHR 0x0A]) =
     ''Maharashtra 411001, India''"
  by code_simp

text \<open>
  Claim C9, as amended. Every position request of a run of \<^verbatim>\<open>handleAutoLocation\<close>
  has the high-accuracy hint, a timeout of exactly 10 seconds and a maximum age of
  exactly 5 minutes, and a run makes no request but this one and, after a fix, the
  reverse geocoding of the fix. Inside a run no other timeout and no cancellation is
  applied: a run sets and clears no timer, and while the position request or the
  geocoder does not answer, the run has done exactly what precedes the request and does
  nothing more. The one other timer of the flow is the delay of 500 ms after which the
  effect that starts the detection calls \<^verbatim>\<open>handleAutoLocation\<close>; the cleanup of that
  effect cancels a run that has not started yet.
\<close>

theorem position_request_options:
  "(\<forall>opts. GetCurrentPosition opts \<in> set (handleAutoLocation a l w) \<longrightarrow>
      enableHighAccuracy opts \<and> timeout opts = 10 * 1000 \<and> maximumAge opts = 5 * 60 * 1000)
   \<and> (requests (handleAutoLocation a l w) = []
      \<or> requests (handleAutoLocation a l w) =
          [GetCurrentPosition \<lparr>enableHighAccuracy = True, timeout = 10000, maximumAge = 300000\<rparr>]
      \<or> (\<exists>coords. position_fix w = Resolved coords
            \<and> requests (handleAutoLocation a l w) =
                [GetCurrentPosition
                   \<lparr>enableHighAccuracy = True, timeout = 10000, maximumAge = 300000\<rparr>,
                 Geocode \<lparr>lat = latitude coords, lng = longitude coords\<rparr>]))
   \<and> timers (handleAutoLocation a l w) = []
   \<and> (navigator_geolocation w \<and> position_fix w = Pending \<longrightarrow>
        handleAutoLocation True True w =
          [SetLocationState requesting, SetHasRequestedLocation True,
           SetLocationState detecting,
           GetCurrentPosition
             \<lparr>enableHighAccuracy = True, timeout = 10000, maximumAge = 300000\<rparr>])
   \<and> (navigator_geolocation w \<and> position_fix w = Resolved coords
        \<and> geocoder_callback w = None \<longrightarrow>
        handleAutoLocation True True w =
          [SetLocationState requesting, SetHasRequestedLocation True,
           SetLocationState detecting,
           GetCurrentPosition
             \<lparr>enableHighAccuracy = True, timeout = 10000, maximumAge = 300000\<rparr>,
           SetLocationState geocoding,
           Geocode \<lparr>lat = latitude coords, lng = longitude coords\<rparr>])
   \<and> (autoDetectEffect a c w = []
      \<or> autoDetectEffect a c w = SetTimeout 500 # handleAutoLocation True True w)
   \<and> (autoDetectCancelled a c = []
      \<or> autoDetectCancelled a c = [SetTimeout 500, ClearTimeout])"
proof -
  have opts: "\<forall>opts. GetCurrentPosition opts \<in> set (handleAutoLocation a l w) \<longrightarrow>
      enableHighAccuracy opts \<and> timeout opts = 10 * 1000 \<and> maximumAge opts = 5 * 60 * 1000"
    unfolding handleAutoLocation_def reverse_geocode_def
    by (auto split: promise.splits list.splits option.splits)
  have reqs: "requests (handleAutoLocation a l w) = []
      \<or> requests (handleAutoLocation a l w) =
          [GetCurrentPosition \<lparr>enableHighAccuracy = True, timeout = 10000, maximumAge = 300000\<rparr>]
      \<or> (\<exists>coords. position_fix w = Resolved coords
            \<and> requests (handleAutoLocation a l w) =
                [GetCurrentPosition
                   \<lparr>enableHighAccuracy = True, timeout = 10000, maximumAge = 300000\<rparr>,
                 Geocode \<lparr>lat = latitude coords, lng = longitude coords\<rparr>])"
    unfolding handleAutoLocation_def reverse_geocode_def
    by (auto split: promise.splits list.splits option.splits)
  have tim: "timers (handleAutoLocation a l w) = []"
    unfolding handleAutoLocation_def
    by (simp split: promise.splits list.splits option.splits)
  have pend: "navigator_geolocation w \<and> position_fix w = Pending \<longrightarrow>
        handleAutoLocation True True w =
          [SetLocationState requesting, SetHasRequestedLocation True,
           SetLocationState detecting,
           GetCurrentPosition
             \<lparr>enableHighAccuracy = True, timeout = 10000, maximumAge = 300000\<rparr>]"
    by (simp add: handleAutoLocation_def)
  have silent: "navigator_geolocation w \<and> position_fix w = Resolved coords
        \<and> geocoder_callback w = None \<longrightarrow>
        handleAutoLocation True True w =
          [SetLocationState requesting, SetHasRequestedLocation True,
           SetLocationState detecting,
           GetCurrentPosition
             \<lparr>enableHighAccuracy = True, timeout = 10000, maximumAge = 300000\<rparr>,
           SetLocationState geocoding,
           Geocode \<lparr>lat = latitude coords, lng = longitude coords\<rparr>]"
    by (simp add: handleAutoLocation_def reverse_geocode_def)
  have eff: "autoDetectEffect a c w = []
      \<or> autoDetectEffect a c w = SetTimeout 500 # handleAutoLocation True True w"
    by (cases "a \<and> apiLoaded c \<and> \<not> has_address (fieldValue c)
         \<and> \<not> hasRequestedLocation c \<and> locationState c = idle")
      (simp_all add: autoDetectEffect_def)
  have canc: "autoDetectCancelled a c = []
      \<or> autoDetectCancelled a c = [SetTimeout 500, ClearTimeout]"
    by (simp add: autoDetectCancelled_def)
  from opts reqs tim pend silent eff canc show ?thesis
    by (intro conjI)
qed

text \<open>The amended claim C9 at a run that finds Pune, at a position request that is never
  answered and at a geocoder that never calls back.\<close>

theorem position_request_options_witness:
  "GetCurrentPosition \<lparr>enableHighAccuracy = True, timeout = 10000, maximumAge = 300000\<rparr>
     \<in> set (handleAutoLocation True True located_answers)
   \<and> requests (handleAutoLocation True True located_answers) =
       [GetCurrentPosition \<lparr>enableHighAccuracy = True, timeout = 10000, maximumAge = 300000\<rparr>,
        Geocode \<lparr>lat = 18.5, lng = 73.8\<rparr>]
   \<and> navigator_geolocation pending_answers \<and> position_fix pending_answers = Pending
   \<and> handleAutoLocation True True pending_answers =
       [SetLocationState requesting, SetHasRequestedLocation True,
        SetLocationState detecting,
        GetCurrentPosition \<lparr>enableHighAccuracy = True, timeout = 10000, maximumAge = 300000\<rparr>]
   \<and> navigator_geolocation silent_geocoder_answers
   \<and> position_fix silent_geocoder_answers = Resolved \<lparr>latitude = 18.5, longitude = 73.8\<rparr>
   \<and> geocoder_callback silent_geocoder_answers = None
   \<and> handleAutoLocation True True silent_geocoder_answers =
       [SetLocationState requesting, SetHasRequestedLocation True,
        SetLocationState detecting,
        GetCurrentPosition \<lparr>enableHighAccuracy = True, timeout = 10000, maximumAge = 300000\<rparr>,
        SetLocationState geocoding,
        Geocode \<lparr>lat = 18.5, lng = 73.8\<rparr>]"
proof -
  have g: "GetCurrentPosition
             \<lparr>enableHighAccuracy = True, timeout = 10000, maximumAge = 300000\<rparr>
           \<in> set (handleAutoLocation True True located_answers)"
    by (simp add: handleAutoLocation_def located_answers_def)
  have q: "requests (handleAutoLocation True True located_answers) =
       [GetCurrentPosition \<lparr>enableHighAccuracy = True, timeout = 10000, maximumAge = 300000\<rparr>,
        Geocode \<lparr>lat = 18.5, lng = 73.8\<rparr>]"
    by (simp add: handleAutoLocation_def reverse_geocode_def located_answers_def
        pune_result_def result_location_def)
  have p: "navigator_geolocation pending_answers \<and> position_fix pending_answers = Pending"
    by (simp add: pending_answers_def)
  have s: "navigator_geolocation silent_geocoder_answers
           \<and> position_fix silent_geocoder_answers =
               Resolved \<lparr>latitude = 18.5, longitude = 73.8\<rparr>
           \<and> geocoder_callback silent_geocoder_answers = None"
    by (simp add: silent_geocoder_answers_def)
  have tp: "handleAutoLocation True True pending_answers =
       [SetLocationState requesting, SetHasRequestedLocation True,
        SetLocationState detecting,
        GetCurrentPosition \<lparr>enableHighAccuracy = True, timeout = 10000, maximumAge = 300000\<rparr>]"
    using position_request_options [of True True pending_answers] p by blast
  have ts: "handleAutoLocation True True silent_geocoder_answers =
       [SetLocationState requesting, SetHasRequestedLocation True,
        SetLocationState detecting,
        GetCurrentPosition \<lparr>enableHighAccuracy = True, timeout = 10000, maximumAge = 300000\<rparr>,
        SetLocationState geocoding,
        Geocode \<lparr>lat = latitude \<lparr>latitude = 18.5, longitude = 73.8\<rparr>,
                 lng = longitude \<lparr>latitude = 18.5, longitude = 73.8\<rparr>\<rparr>]"
    using position_request_options
      [of True True silent_geocoder_answers "\<lparr>latitude = 18.5, longitude = 73.8\<rparr>"] s
    by blast
  show ?thesis
    using g q p s tp ts by simp
qed

text \<open>
  Claim C9 as it was stated fails: the flow has another timer and a cancellation. The
  effect that starts the detection sets a timer of 500 ms, and when its cleanup runs
  before the timer fires, the detection is cancelled.
\<close>

theorem start_delay_counterexample:
  "autoDetectCancelled True ready_component = [SetTimeout 500, ClearTimeout]
   \<and> timers (autoDetectEffect True ready_component denied_answers) = [SetTimeout 500]"
  by (simp add: autoDetectCancelled_def autoDetectEffect_def handleAutoLocation_def
      ready_component_def initial_component_def has_address_def denied_answers_def)

section \<open>The location state machine\<close>

lemma location_trace_other:
  "location_trace (loadApiEffect b load) = []"
  "location_trace (autoDetectCancelled a c) = []"
  "location_trace onError = []"
  "location_trace (onInputChange m v act) = []"
  "location_trace (selectOnChange s act) = []"
  "location_trace (placesOnChange v) = []"
  by (simp_all add: loadApiEffect_def autoDetectCancelled_def onError_def onInputChange_def
      selectOnChange_def placesOnChange_def split: promise.splits option.splits)

lemma locationState_step:
  assumes "locationState c \<in> {idle, requesting, detecting, geocoding, success}"
  shows "locationState (step a c ev) \<in> {idle, requesting, detecting, geocoding, success}"
proof (cases ev)
  case (AutoDetect w)
  have "locationState (step a c ev) = locationState c
        \<or> locationState (step a c ev) \<in> {idle, detecting, geocoding, success}"
    using location_trace_autoDetectEffect [of a c w]
    unfolding AutoDetect step_def handle.simps locationState_run
    by (elim disjE conjE insertE emptyE) simp_all
  then show ?thesis
  proof
    assume "locationState (step a c ev) = locationState c"
    with assms show ?thesis by simp
  next
    assume "locationState (step a c ev) \<in> {idle, detecting, geocoding, success}"
    then show ?thesis by auto
  qed
next
  case (SelectionEffect response)
  then show ?thesis
    using assms by (simp add: step_def locationState_run location_trace_selectionEffect)
qed (use assms in \<open>simp_all add: step_def locationState_run location_trace_other\<close>)

lemma locationState_session:
  "locationState c \<in> {idle, requesting, detecting, geocoding, success} \<Longrightarrow>
   locationState (session a evs c) \<in> {idle, requesting, detecting, geocoding, success}"
proof (induction evs arbitrary: c)
  case Nil
  then show ?case by simp
next
  case (Cons ev evs)
  show ?case
    using Cons.IH [OF locationState_step [OF Cons.prems]] by simp
qed

text \<open>
  Claim C8, as amended. During a geolocation run the location state makes only the
  transitions \<open>idle \<rightarrow> requesting \<rightarrow> detecting \<rightarrow> geocoding \<rightarrow> success\<close>, in that order
  and without skipping a stage, and the reset to \<open>idle\<close> from \<open>requesting\<close>,
  \<open>detecting\<close> or \<open>geocoding\<close> with which a failure ends the run; in every session of
  a mounted component the location state is one of \<open>idle\<close>, \<open>requesting\<close>,
  \<open>detecting\<close>, \<open>geocoding\<close> and \<open>success\<close>, so \<open>error\<close> and \<open>denied\<close> are never
  entered.
\<close>

theorem location_state_machine:
  "set (transitions (locationState c) (location_trace (autoDetectEffect a c w)))
     \<subseteq> {(idle, requesting), (requesting, detecting), (detecting, geocoding),
        (geocoding, success), (requesting, idle), (detecting, idle), (geocoding, idle)}
   \<and> locationState (session a evs (initial_component v))
     \<in> {idle, requesting, detecting, geocoding, success}"
proof
  from location_trace_autoDetectEffect [of a c w]
  show "set (transitions (locationState c) (location_trace (autoDetectEffect a c w)))
     \<subseteq> {(idle, requesting), (requesting, detecting), (detecting, geocoding),
        (geocoding, success), (requesting, idle), (detecting, idle), (geocoding, idle)}"
    unfolding transitions_def
    by (elim disjE conjE insertE emptyE) simp_all
  show "locationState (session a evs (initial_component v))
     \<in> {idle, requesting, detecting, geocoding, success}"
    by (rule locationState_session) (simp add: initial_component_def)
qed

text \<open>The amended claim C8 at a session that loads the API and finds Pune.\<close>

theorem location_state_machine_witness:
  "transitions (locationState ready_component)
     (location_trace (autoDetectEffect True ready_component located_answers)) =
     [(idle, requesting), (requesting, detecting), (detecting, geocoding),
      (geocoding, success)]
   \<and> locationState
       (session True [LoadApi True Pending, AutoDetect located_answers]
          (initial_component None)) = success"
  using location_state_machine
    [of ready_component True located_answers
        "[LoadApi True Pending, AutoDetect located_answers]" None]
  by (simp add: transitions_def ready_component_def initial_component_def step_def
      loadApiEffect_def autoDetectEffect_def has_address_def handleAutoLocation_def
      reverse_geocode_def located_answers_def pune_result_def result_location_def)

text \<open>
  Claim C8 as it was stated fails: when the permission is denied the run makes the
  transition \<open>detecting \<rightarrow> idle\<close>, which is none of the transitions of the
  specification (the failure does not lead to \<open>error\<close>).
\<close>

theorem location_state_machine_counterexample:
  "transitions (locationState ready_component)
     (location_trace (autoDetectEffect True ready_component denied_answers)) =
     [(idle, requesting), (requesting, detecting), (detecting, idle)]
   \<and> (detecting, idle) \<notin> set spec_transitions"
  by (simp add: transitions_def spec_transitions_def ready_component_def denied_answers_def
      initial_component_def autoDetectEffect_def handleAutoLocation_def has_address_def)

section \<open>Properties of manual entry\<close>

lemma no_manual_reset: "SetAllowManualInput False \<notin> set (handle a c ev)"
proof (cases ev)
  case (AutoDetect w)
  then show ?thesis
    unfolding handle.simps AutoDetect autoDetectEffect_def handleAutoLocation_def
    by (simp split: promise.splits list.splits option.splits)
next
  case (SelectionEffect response)
  show ?thesis
  proof (cases "state c")
    case Nil
    then show ?thesis using SelectionEffect by simp
  next
    case (Cons s ss)
    then show ?thesis
      using SelectionEffect handleSelect_effects [of response s] by auto
  qed
qed (simp_all add: loadApiEffect_def autoDetectCancelled_def onError_def onInputChange_def
      selectOnChange_def placesOnChange_def split: promise.splits option.splits)

lemma allowManualInput_session:
  "allowManualInput c \<Longrightarrow> allowManualInput (session a evs c)"
proof (induction evs arbitrary: c)
  case Nil
  then show ?case by simp
next
  case (Cons ev evs)
  have "allowManualInput (step a c ev)"
    unfolding step_def using Cons.prems no_manual_reset by (rule allowManualInput_run)
  then show ?case using Cons.IH by simp
qed

lemma allowManualInput_onError: "allowManualInput (step a c ProviderError)"
  by (simp add: step_def onError_def)

text \<open>
  Claim C6, as amended. After the suggestion provider reports an error, manual input is
  allowed for the rest of the session, whatever happens next, and every input value typed
  from then on (an input change with the action \<^verbatim>\<open>"input-change"\<close>) is written to the
  bound field as \<^verbatim>\<open>{address: <typed text>, position: {lat: 0, lng: 0}}\<close> without any
  geocode call; the typed text is still handed to the input handler of the autocomplete
  provider, as before the error.
\<close>

theorem manual_entry_after_provider_error:
  "allowManualInput (session a evs (step a c ProviderError))
   \<and> handle a (session a evs (step a c ProviderError)) (InputChange v ''input-change'') =
       [FieldOnChange \<lparr>address = Some v, position = \<lparr>lat = 0, lng = 0\<rparr>\<rparr>,
        AutocompleteInputChange v]
   \<and> requests
       (handle a (session a evs (step a c ProviderError)) (InputChange v ''input-change'')) = []
   \<and> fieldValue (step a (session a evs (step a c ProviderError))
                   (InputChange v ''input-change'')) =
       Some \<lparr>address = Some v, position = \<lparr>lat = 0, lng = 0\<rparr>\<rparr>"
proof -
  have m: "allowManualInput (session a evs (step a c ProviderError))"
    using allowManualInput_onError by (rule allowManualInput_session)
  then show ?thesis
    by (simp add: step_def onInputChange_def)
qed

text \<open>The amended claim C6 at a session in which, after the error, the input text changes
  and the selection is cleared before the user types \<^verbatim>\<open>Pune\<close>.\<close>

theorem manual_entry_after_provider_error_witness:
  "fieldValue
     (step False
        (session False [PlacesChange ''Pu'', SelectChange None ''clear'']
           (step False (initial_component None) ProviderError))
        (InputChange ''Pune'' ''input-change'')) =
     Some \<lparr>address = Some ''Pune'', position = \<lparr>lat = 0, lng = 0\<rparr>\<rparr>"
  using manual_entry_after_provider_error
    [of False "[PlacesChange ''Pu'', SelectChange None ''clear'']" "initial_component None"
        "''Pune''"]
  by simp

text \<open>
  Claim C6 as it was stated fails: after the provider has reported an error, typed text
  still reaches the input handler of the provider, so that its queries are not
  suppressed.
\<close>

theorem provider_still_called_counterexample:
  "AutocompleteInputChange ''Pune'' \<in>
     set (handle False (step False (initial_component None) ProviderError)
            (InputChange ''Pune'' ''input-change''))"
  by (simp add: step_def onError_def onInputChange_def initial_component_def)

section \<open>The sentinel position\<close>

lemma writes_handleAutoLocation:
  "v \<in> set (writes (handleAutoLocation a l w)) \<Longrightarrow>
   resolved_coordinate (AutoDetect w) = Some (position v)"
  unfolding handleAutoLocation_def reverse_geocode_def resolved_coordinate_def
  by (auto split: promise.splits list.splits option.splits if_splits)

lemma writes_handleSelect:
  "v \<in> set (writes (handleSelect response opt)) \<Longrightarrow>
   position v = \<lparr>lat = 0, lng = 0\<rparr>
   \<or> resolved_coordinate (SelectionEffect response) = Some (position v)"
  by (cases opt)
    (auto simp: resolved_coordinate_def location_or_default_def
      split: promise.splits list.splits option.splits if_splits)

text \<open>
  Claim C7. Whatever the event (the selection of a suggestion, an empty or absent
  selection, a geolocation run, manual entry or any other handler) and whatever the state
  of the component, every value written to the bound field has a position that is either
  \<^verbatim>\<open>{lat: 0, lng: 0}\<close> or the coordinate that the provider resolved for this event; so
  it is \<^verbatim>\<open>{lat: 0, lng: 0}\<close> whenever no resolved coordinate exists. A position is a
  record of both coordinates, so none is partial or absent.
\<close>

theorem written_position:
  assumes "v \<in> set (writes (handle a c ev))"
  shows "(resolved_coordinate ev = None \<longrightarrow> position v = \<lparr>lat = 0, lng = 0\<rparr>)
         \<and> (position v = \<lparr>lat = 0, lng = 0\<rparr> \<or> resolved_coordinate ev = Some (position v))"
proof -
  have "position v = \<lparr>lat = 0, lng = 0\<rparr> \<or> resolved_coordinate ev = Some (position v)"
  proof (cases ev)
    case (AutoDetect w)
    then show ?thesis
      using assms writes_handleAutoLocation [of v a "apiLoaded c" w]
      by (simp add: autoDetectEffect_def split: if_splits)
  next
    case (SelectionEffect response)
    then show ?thesis
      using assms writes_handleSelect [of v response]
      by (cases "state c") auto
  qed (use assms in \<open>auto simp: loadApiEffect_def autoDetectCancelled_def onError_def
        onInputChange_def selectOnChange_def placesOnChange_def
        split: promise.splits option.splits if_splits\<close>)
  then show ?thesis by auto
qed

text \<open>Claim C7 at manual entry, where no coordinate is resolved, and at the selection of
  a suggestion that the provider resolves.\<close>

theorem written_position_witness:
  "\<lparr>address = Some ''Pune'', position = \<lparr>lat = 0, lng = 0\<rparr>\<rparr>
     \<in> set (writes (handle False (ready_component\<lparr>allowManualInput := True\<rparr>)
                     (InputChange ''Pune'' ''input-change'')))
   \<and> resolved_coordinate (InputChange ''Pune'' ''input-change'') = None
   \<and> \<lparr>address = Some ''Pune, Maharashtra 411001, India'',
       position = \<lparr>lat = 18.52, lng = 73.85\<rparr>\<rparr>
     \<in> set (writes (handle False
                       (ready_component\<lparr>state := [Some (detected_suggestion pune_result)]\<rparr>)
                       (SelectionEffect (Resolved (Some [pune_result])))))
   \<and> resolved_coordinate (SelectionEffect (Resolved (Some [pune_result]))) =
       Some \<lparr>lat = 18.52, lng = 73.85\<rparr>"
proof -
  have w1: "\<lparr>address = Some ''Pune'', position = \<lparr>lat = 0, lng = 0\<rparr>\<rparr>
     \<in> set (writes (handle False (ready_component\<lparr>allowManualInput := True\<rparr>)
                     (InputChange ''Pune'' ''input-change'')))"
    by (simp add: onInputChange_def)
  have w2: "\<lparr>address = Some ''Pune, Maharashtra 411001, India'',
       position = \<lparr>lat = 18.52, lng = 73.85\<rparr>\<rparr>
     \<in> set (writes (handle False
                       (ready_component\<lparr>state := [Some (detected_suggestion pune_result)]\<rparr>)
                       (SelectionEffect (Resolved (Some [pune_result])))))"
    by (simp add: detected_suggestion_def pune_result_def location_or_default_def
        result_location_def)
  show ?thesis
    using written_position [OF w1] written_position [OF w2] w1 w2
    by (simp add: resolved_coordinate_def)
qed

section \<open>Properties of the multi-image input\<close>

lemma validateFiles_loop_valid:
  "fst (validateFiles_loop p files (vs, es)) = vs @ filter (acceptable p) files"
proof (induction files arbitrary: vs es)
  case Nil
  show ?case by simp
next
  case (Cons f fs)
  show ?case by (simp add: Cons.IH acceptable_def not_less)
qed

lemma validateFiles_valid: "fst (validateFiles p files) = filter (acceptable p) files"
  by (simp add: validateFiles_def validateFiles_loop_valid)

lemma add_files_value:
  "files_value (add_files p files st) =
     (if real (length (currentFiles st) + length (filter (acceptable p) files)) > maxFiles p
      then files_value st
      else Some (currentFiles st @ map FileItem (filter (acceptable p) files)))"
proof -
  obtain vs es where v: "validateFiles p files = (vs, es)"
    by (cases "validateFiles p files")
  then have "vs = filter (acceptable p) files"
    using validateFiles_valid [of p files] by simp
  with v show ?thesis
    by (simp add: add_files_def currentFiles_def Let_def)
qed

lemma add_files_errors:
  assumes "real (length (currentFiles st) + length (filter (acceptable p) files)) > maxFiles p"
  shows "errors (add_files p files st) =
           snd (validateFiles p files) @ [MaximumFiles (maxFiles p)]"
proof -
  obtain vs es where v: "validateFiles p files = (vs, es)"
    by (cases "validateFiles p files")
  then have "vs = filter (acceptable p) files"
    using validateFiles_valid [of p files] by simp
  with v assms show ?thesis
    by (simp add: add_files_def currentFiles_def Let_def)
qed

text \<open>
  Claim C10. A file selection with the list \<open>files\<close>, and a drop with a non-empty list
  \<open>files\<close>, change the bound list only by appending, in their order, exactly the files
  of \<open>files\<close> whose MIME type is in \<^verbatim>\<open>acceptedTypes\<close> and whose size is at most
  \<^verbatim>\<open>maxFileSize\<close> megabytes (a bound value that is not an array counts as the empty
  list); and when the files already bound and these files together are more than
  \<^verbatim>\<open>maxFiles\<close>, the bound value is as before, and only the error messages change. A
  drop without files and a selection without a file list leave the bound value as it is.
\<close>

theorem files_only_appended:
  "files_value (handleFileSelect p (Some files) st) =
     (if real (length (currentFiles st) + length (filter (acceptable p) files)) > maxFiles p
      then files_value st
      else Some (currentFiles st @ map FileItem (filter (acceptable p) files)))
   \<and> files_value (handleDrop p (Some files) st) =
     (if files = []
         \<or> real (length (currentFiles st) + length (filter (acceptable p) files)) > maxFiles p
      then files_value st
      else Some (currentFiles st @ map FileItem (filter (acceptable p) files)))
   \<and> files_value (handleFileSelect p None st) = files_value st
   \<and> files_value (handleDrop p None st) = files_value st
   \<and> (real (length (currentFiles st) + length (filter (acceptable p) files)) > maxFiles p \<longrightarrow>
        errors (handleFileSelect p (Some files) st) =
          snd (validateFiles p files) @ [MaximumFiles (maxFiles p)]
        \<and> (files \<noteq> [] \<longrightarrow>
             errors (handleDrop p (Some files) st) =
               snd (validateFiles p files) @ [MaximumFiles (maxFiles p)]))"
  by (simp add: handleFileSelect_def handleDrop_def add_files_value add_files_errors
      currentFiles_def Let_def)

text \<open>
  Claim C10 at a drop of three files onto a list of one image, with room for two: the
  first file is accepted (its size is exactly the limit of one megabyte), the second has
  another type and the third is one byte too large. Selecting the accepted file
  for a list of two would make it the third image; the list stays as it is and the
  message about the maximum is the only error.
\<close>

theorem files_only_appended_witness:
  "files_value
     (handleDrop \<lparr>maxFiles = 2, maxFileSize = 1, acceptedTypes = [''image/png'']\<rparr>
        (Some [\<lparr>name = ''a.png'', type = ''image/png'', size_f = 1048576\<rparr>,
               \<lparr>name = ''b.gif'', type = ''image/gif'', size_f = 10\<rparr>,
               \<lparr>name = ''c.png'', type = ''image/png'', size_f = 1048577\<rparr>])
        \<lparr>isDragOver = True, errors = [], files_value = Some [UrlItem ''https://x/y.png'']\<rparr>) =
     Some [UrlItem ''https://x/y.png'',
           FileItem \<lparr>name = ''a.png'', type = ''image/png'', size_f = 1048576\<rparr>]
   \<and> files_value
     (handleFileSelect \<lparr>maxFiles = 2, maxFileSize = 1, acceptedTypes = [''image/png'']\<rparr>
        (Some [\<lparr>name = ''a.png'', type = ''image/png'', size_f = 1048576\<rparr>])
        \<lparr>isDragOver = False, errors = [],
          files_value = Some [UrlItem ''https://x/y.png'', UrlItem ''https://x/z.png'']\<rparr>) =
     Some [UrlItem ''https://x/y.png'', UrlItem ''https://x/z.png'']
   \<and> errors
     (handleFileSelect \<lparr>maxFiles = 2, maxFileSize = 1, acceptedTypes = [''image/png'']\<rparr>
        (Some [\<lparr>name = ''a.png'', type = ''image/png'', size_f = 1048576\<rparr>])
        \<lparr>isDragOver = False, errors = [],
          files_value = Some [UrlItem ''https://x/y.png'', UrlItem ''https://x/z.png'']\<rparr>) =
     [MaximumFiles 2]"
  using files_only_appended
    [of "\<lparr>maxFiles = 2, maxFileSize = 1, acceptedTypes = [''image/png'']\<rparr>"
        "[\<lparr>name = ''a.png'', type = ''image/png'', size_f = 1048576\<rparr>,
          \<lparr>name = ''b.gif'', type = ''image/gif'', size_f = 10\<rparr>,
          \<lparr>name = ''c.png'', type = ''image/png'', size_f = 1048577\<rparr>]"
        "\<lparr>isDragOver = True, errors = [], files_value = Some [UrlItem ''https://x/y.png'']\<rparr>"]
    files_only_appended
    [of "\<lparr>maxFiles = 2, maxFileSize = 1, acceptedTypes = [''image/png'']\<rparr>"
        "[\<lparr>name = ''a.png'', type = ''image/png'', size_f = 1048576\<rparr>]"
        "\<lparr>isDragOver = False, errors = [],
          files_value = Some [UrlItem ''https://x/y.png'', UrlItem ''https://x/z.png'']\<rparr>"]
  by (simp add: acceptable_def currentFiles_def validateFiles_def)

end
